theory Spec2Isabelle
  imports Complex_Main
begin

section \<open>Retail point of sale: data model\<close>

text \<open>
  The application of \<^verbatim>\<open>script.js\<close> is one class, \<^verbatim>\<open>RetailPOS\<close>, whose fields are
  mutated by its methods. The embedding keeps the fields the checkout, inventory,
  permission, forecast and report code reads or writes in a record \<open>pos\<close>; every
  method becomes a function from the state before the call to the notice it shows and
  the state after it.

  Numbers: JavaScript has one number type. Identifiers, quantities, stock levels and
  clock readings (milliseconds) are integers in the program and are \<open>int\<close> here; prices
  and money amounts are modelled as exact rationals, so \<^verbatim>\<open>0.1\<close> is \<open>1/10\<close> and rounding
  of binary floating point is not part of the model. The range of the program's numbers
  is: the cart summary is modelled a second time, \<open>updateCartSummaryJs\<close>, with sums and
  products that overflow to \<^verbatim>\<open>Infinity\<close> and \<^verbatim>\<open>Infinity - Infinity\<close> giving \<^verbatim>\<open>NaN\<close>.
  Calls that only render the page or write the state to the browser's storage do not
  change the fields and are left out.
\<close>

record product =
  prod_id :: int
  prod_name :: string
  category :: string
  price :: rat
  stock :: int
  barcode :: string
  description :: string
  quickKey :: "int option"

record cart_item =
  item_id :: int
  item_name :: string
  item_price :: rat
  quantity :: int

record discount_cfg =
  disc_type :: string
  disc_value :: rat
  disc_code :: string

record customer_info =
  cust_name :: string
  cust_phone :: string

record sale =
  sale_id :: int
  sale_date :: int
  customer :: customer_info
  items :: "cart_item list"
  sale_subtotal :: rat
  sale_discount :: rat
  sale_discountType :: string
  sale_discountValue :: rat
  sale_tax :: rat
  sale_total :: rat

record user =
  user_id :: int
  user_name :: string
  username :: string
  password :: string
  role :: string
  email :: string
  lastLogin :: "int option"
  isActive :: bool
  createdAt :: int

record sales_filter =
  search :: string
  dateRange :: string
  startDate :: "int option"
  endDate :: "int option"

record pos =
  products :: "product list"
  cart :: "cart_item list"
  sales :: "sale list"
  discount :: discount_cfg
  currentEditId :: "int option"
  currentFilter :: sales_filter
  currentUser :: "user option"
  users :: "user list"

text \<open>What \<^verbatim>\<open>showToast(message, type)\<close> is called with; \<open>Silent\<close> is a return without a toast.\<close>

datatype message =
  Text string
  | DiscountApplied rat string
  | Reordered int string

datatype notice = Toast message string | Silent

datatype js_error = TypeError

text \<open>
  \<^verbatim>\<open>const x = xs.find(p); x.f = v\<close> mutates the first element that satisfies \<open>p\<close>
  in place; on a list of values that is an update of the first match.
\<close>

fun mutate_first :: "('a \<Rightarrow> bool) \<Rightarrow> ('a \<Rightarrow> 'a) \<Rightarrow> 'a list \<Rightarrow> 'a list" where
  "mutate_first P f [] = []"
| "mutate_first P f (x # xs) = (if P x then f x # xs else x # mutate_first P f xs)"

section \<open>Cart\<close>

definition addToCart :: "int \<Rightarrow> pos \<Rightarrow> notice \<times> pos" where
  "addToCart productId s =
     (case find (\<lambda>p. prod_id p = productId) (products s) of
        None \<Rightarrow> (Toast (Text ''Product not available'') ''error'', s)
      | Some product \<Rightarrow>
          if stock product = 0 then (Toast (Text ''Product not available'') ''error'', s)
          else
            (case find (\<lambda>item. item_id item = productId) (cart s) of
               Some existingItem \<Rightarrow>
                 if quantity existingItem \<ge> stock product
                 then (Toast (Text ''Insufficient stock'') ''warning'', s)
                 else (Toast (Text ''Added to cart'') ''success'',
                       s\<lparr>cart := mutate_first (\<lambda>item. item_id item = productId)
                                    (\<lambda>item. item\<lparr>quantity := quantity item + 1\<rparr>) (cart s)\<rparr>)
             | None \<Rightarrow>
                 (Toast (Text ''Added to cart'') ''success'',
                  s\<lparr>cart := cart s @
                       [\<lparr>item_id = prod_id product, item_name = prod_name product,
                         item_price = price product, quantity = 1\<rparr>]\<rparr>)))"

definition removeFromCart :: "int \<Rightarrow> pos \<Rightarrow> pos" where
  "removeFromCart productId s = s\<lparr>cart := filter (\<lambda>item. item_id item \<noteq> productId) (cart s)\<rparr>"

text \<open>
  \<^verbatim>\<open>updateQuantity\<close> reads \<^verbatim>\<open>product.stock\<close> without testing that the product was
  found: with the line's product gone from the catalog the read throws, before anything
  is written.
\<close>

definition updateQuantity :: "int \<Rightarrow> int \<Rightarrow> pos \<Rightarrow> js_error + notice \<times> pos" where
  "updateQuantity productId change s =
     (case find (\<lambda>item. item_id item = productId) (cart s) of
        None \<Rightarrow> Inr (Silent, s)
      | Some item \<Rightarrow>
          let newQuantity = quantity item + change in
          if newQuantity \<le> 0 then Inr (Silent, removeFromCart productId s)
          else
            (case find (\<lambda>p. prod_id p = productId) (products s) of
               None \<Rightarrow> Inl TypeError
             | Some product \<Rightarrow>
                 if newQuantity > stock product
                 then Inr (Toast (Text ''Insufficient stock'') ''warning'', s)
                 else Inr (Silent,
                       s\<lparr>cart := mutate_first (\<lambda>item. item_id item = productId)
                                    (\<lambda>item. item\<lparr>quantity := newQuantity\<rparr>) (cart s)\<rparr>)))"

section \<open>Pricing, discount and tax\<close>

record summary =
  sum_subtotal :: rat
  sum_discount :: rat
  sum_discounted :: rat
  sum_tax :: rat
  sum_total :: rat

text \<open>
  \<^verbatim>\<open>updateCartSummary\<close> computes the five amounts and writes four of them to the page;
  the model returns the amounts. The tax checkbox is read from the page and is an
  argument here.
\<close>

definition updateCartSummary :: "bool \<Rightarrow> pos \<Rightarrow> summary" where
  "updateCartSummary taxEnabled s =
     (let subtotal = foldl (\<lambda>sum item. sum + item_price item * of_int (quantity item)) 0 (cart s);
          discountAmount =
            (if disc_value (discount s) > 0
             then (if disc_type (discount s) = ''percentage''
                   then subtotal * (disc_value (discount s) / 100)
                   else min (disc_value (discount s)) subtotal)
             else 0);
          discountedSubtotal = subtotal - discountAmount;
          tax = (if taxEnabled then discountedSubtotal * (1 / 10) else 0);
          total = discountedSubtotal + tax
      in \<lparr>sum_subtotal = subtotal, sum_discount = discountAmount,
          sum_discounted = discountedSubtotal, sum_tax = tax, sum_total = total\<rparr>)"

text \<open>
  \<^verbatim>\<open>applyDiscount\<close> reads the code, the value and the type from the form.
  \<^verbatim>\<open>parseFloat(...) || 0\<close> turns an unreadable value (\<open>None\<close>) into 0.
\<close>

definition applyDiscount :: "string \<Rightarrow> rat option \<Rightarrow> string \<Rightarrow> pos \<Rightarrow> notice \<times> pos" where
  "applyDiscount discountCode parsed discountType s =
     (let discountValue = (case parsed of None \<Rightarrow> 0 | Some v \<Rightarrow> v) in
      if discountValue \<le> 0
      then (Toast (Text ''Please enter a valid discount value'') ''warning'', s)
      else if discountType = ''percentage'' \<and> discountValue > 100
      then (Toast (Text ''Percentage discount cannot exceed 100%'') ''warning'', s)
      else (Toast (DiscountApplied discountValue discountType) ''success'',
            s\<lparr>discount := \<lparr>disc_type = discountType, disc_value = discountValue,
                            disc_code = discountCode\<rparr>\<rparr>))"

subsection \<open>The cart summary in the range of the numbers\<close>

text \<open>
  A number of the program is a double: a finite value, \<^verbatim>\<open>Infinity\<close>, \<^verbatim>\<open>-Infinity\<close> or
  \<^verbatim>\<open>NaN\<close>. The model keeps the finite values exact and gives an operation whose exact
  result rounds beyond the largest double the infinite result, as the program does: that
  is a result of magnitude \<open>2^1024 - 2^970\<close> or more. The operations follow the
  arithmetic of the language on the special values; the sign of zero and the loss of
  precision are not modelled.
\<close>

datatype jsnum = Num rat | PosInf | NegInf | NaN

definition overflowAt :: rat where
  "overflowAt = 2 ^ 1024 - 2 ^ 970"

definition fromRat :: "rat \<Rightarrow> jsnum" where
  "fromRat r = (if r \<ge> overflowAt then PosInf else if r \<le> - overflowAt then NegInf else Num r)"

fun js_neg :: "jsnum \<Rightarrow> jsnum" where
  "js_neg (Num a) = Num (- a)"
| "js_neg PosInf = NegInf"
| "js_neg NegInf = PosInf"
| "js_neg NaN = NaN"

fun js_add :: "jsnum \<Rightarrow> jsnum \<Rightarrow> jsnum" where
  "js_add (Num a) (Num b) = fromRat (a + b)"
| "js_add NaN y = NaN"
| "js_add x NaN = NaN"
| "js_add PosInf NegInf = NaN"
| "js_add NegInf PosInf = NaN"
| "js_add PosInf y = PosInf"
| "js_add x PosInf = PosInf"
| "js_add NegInf y = NegInf"
| "js_add x NegInf = NegInf"

definition js_sub :: "jsnum \<Rightarrow> jsnum \<Rightarrow> jsnum" where
  "js_sub x y = js_add x (js_neg y)"

fun js_mul :: "jsnum \<Rightarrow> jsnum \<Rightarrow> jsnum" where
  "js_mul (Num a) (Num b) = fromRat (a * b)"
| "js_mul NaN y = NaN"
| "js_mul x NaN = NaN"
| "js_mul (Num a) PosInf = (if a = 0 then NaN else if a > 0 then PosInf else NegInf)"
| "js_mul (Num a) NegInf = (if a = 0 then NaN else if a > 0 then NegInf else PosInf)"
| "js_mul PosInf (Num b) = (if b = 0 then NaN else if b > 0 then PosInf else NegInf)"
| "js_mul NegInf (Num b) = (if b = 0 then NaN else if b > 0 then NegInf else PosInf)"
| "js_mul PosInf PosInf = PosInf"
| "js_mul PosInf NegInf = NegInf"
| "js_mul NegInf PosInf = NegInf"
| "js_mul NegInf NegInf = PosInf"

fun js_div :: "jsnum \<Rightarrow> jsnum \<Rightarrow> jsnum" where
  "js_div (Num a) (Num b) =
     (if b = 0 then (if a = 0 then NaN else if a > 0 then PosInf else NegInf)
      else fromRat (a / b))"
| "js_div NaN y = NaN"
| "js_div x NaN = NaN"
| "js_div (Num a) PosInf = Num 0"
| "js_div (Num a) NegInf = Num 0"
| "js_div PosInf (Num b) = (if b \<ge> 0 then PosInf else NegInf)"
| "js_div NegInf (Num b) = (if b \<ge> 0 then NegInf else PosInf)"
| "js_div PosInf PosInf = NaN"
| "js_div PosInf NegInf = NaN"
| "js_div NegInf PosInf = NaN"
| "js_div NegInf NegInf = NaN"

fun js_min :: "jsnum \<Rightarrow> jsnum \<Rightarrow> jsnum" where
  "js_min (Num a) (Num b) = Num (min a b)"
| "js_min NaN y = NaN"
| "js_min x NaN = NaN"
| "js_min NegInf y = NegInf"
| "js_min x NegInf = NegInf"
| "js_min PosInf y = y"
| "js_min x PosInf = x"



text \<open>
  \<^verbatim>\<open>updateCartSummary\<close> once more, on these numbers: the same statements in the same
  order, every operator of the source replaced by the operation above.
\<close>

record js_summary =
  js_subtotal :: jsnum
  js_discountAmount :: jsnum
  js_discountedSubtotal :: jsnum
  js_tax :: jsnum
  js_total :: jsnum

definition updateCartSummaryJs :: "bool \<Rightarrow> pos \<Rightarrow> js_summary" where
  "updateCartSummaryJs taxOn s =
     (let subtotal = foldl (\<lambda>sum item. js_add sum (js_mul (Num (item_price item))
                                                      (Num (of_int (quantity item)))))
                       (Num 0) (cart s);
          discountAmount =
            (if disc_value (discount s) > 0
             then (if disc_type (discount s) = ''percentage''
                   then js_mul subtotal (js_div (Num (disc_value (discount s))) (Num 100))
                   else js_min (Num (disc_value (discount s))) subtotal)
             else Num 0);
          discountedSubtotal = js_sub subtotal discountAmount;
          tax = (if taxOn then js_mul discountedSubtotal (Num (1 / 10)) else Num 0);
          total = js_add discountedSubtotal tax
      in \<lparr>js_subtotal = subtotal, js_discountAmount = discountAmount,
          js_discountedSubtotal = discountedSubtotal, js_tax = tax, js_total = total\<rparr>)"


section \<open>Checkout\<close>

text \<open>
  What \<^verbatim>\<open>checkout\<close> reads from outside the object: the customer fields and the tax
  checkbox of the page, and the clock, read once for the sale's id (\<^verbatim>\<open>Date.now()\<close>)
  and once for its date (\<^verbatim>\<open>new Date()\<close>).
\<close>

record checkout_env =
  customerName :: string
  customerPhone :: string
  taxEnabled :: bool
  idNow :: int
  dateNow :: int

text \<open>The \<^verbatim>\<open>forEach\<close> over the cart that takes each line's quantity off its product.\<close>

definition updateStock :: "cart_item list \<Rightarrow> product list \<Rightarrow> product list" where
  "updateStock c ps =
     foldl (\<lambda>ps cartItem.
              case find (\<lambda>p. prod_id p = item_id cartItem) ps of
                Some product \<Rightarrow>
                  mutate_first (\<lambda>p. prod_id p = item_id cartItem)
                    (\<lambda>p. p\<lparr>stock := stock p - quantity cartItem\<rparr>) ps
              | None \<Rightarrow> ps) ps c"

definition checkout :: "checkout_env \<Rightarrow> pos \<Rightarrow> notice \<times> pos" where
  "checkout env s =
     (if length (cart s) = 0 then (Toast (Text ''Cart is empty'') ''warning'', s)
      else
        let subtotal = foldl (\<lambda>sum item. sum + item_price item * of_int (quantity item)) 0 (cart s);
            discountAmount =
              (if disc_value (discount s) > 0
               then (if disc_type (discount s) = ''percentage''
                     then subtotal * (disc_value (discount s) / 100)
                     else min (disc_value (discount s)) subtotal)
               else 0);
            discountedSubtotal = subtotal - discountAmount;
            tax = (if taxEnabled env then discountedSubtotal * (1 / 10) else 0);
            total = discountedSubtotal + tax;
            sale = \<lparr>sale_id = idNow env, sale_date = dateNow env,
                    customer = \<lparr>cust_name = customerName env, cust_phone = customerPhone env\<rparr>,
                    items = cart s, sale_subtotal = subtotal, sale_discount = discountAmount,
                    sale_discountType = disc_type (discount s),
                    sale_discountValue = disc_value (discount s),
                    sale_tax = tax, sale_total = total\<rparr>
        in (Toast (Text ''Sale completed successfully'') ''success'',
            s\<lparr>products := updateStock (cart s) (products s),
              sales := sales s @ [sale],
              cart := [],
              discount := \<lparr>disc_type = ''percentage'', disc_value = 0, disc_code = ''''\<rparr>\<rparr>))"

section \<open>Inventory\<close>

text \<open>
  The product form as \<^verbatim>\<open>saveProduct\<close> reads it: \<^verbatim>\<open>parseFloat\<close> and \<^verbatim>\<open>parseInt\<close>
  give a number or \<^verbatim>\<open>NaN\<close> (\<open>None\<close>); neither rejects a negative number. The clock is
  read for the id of a new product.
\<close>

record product_form =
  form_name :: string
  form_category :: string
  form_price :: "rat option"
  form_stock :: "int option"
  form_barcode :: string
  form_description :: string
  form_quickKey :: "int option"
  form_now :: int

text \<open>
  \<^verbatim>\<open>openProductModal(productId)\<close> fills the form from the product and remembers its id;
  a falsy id (\<^verbatim>\<open>null\<close>, 0) opens the empty form. Reading \<^verbatim>\<open>product.name\<close> of a product
  that is not found throws.
\<close>

definition openProductModal :: "int option \<Rightarrow> pos \<Rightarrow> js_error + pos" where
  "openProductModal productId s =
     (case productId of
        None \<Rightarrow> Inr (s\<lparr>currentEditId := None\<rparr>)
      | Some i \<Rightarrow>
          if i = 0 then Inr (s\<lparr>currentEditId := None\<rparr>)
          else (case find (\<lambda>p. prod_id p = i) (products s) of
                  None \<Rightarrow> Inl TypeError
                | Some product \<Rightarrow> Inr (s\<lparr>currentEditId := Some i\<rparr>)))"

definition saveProduct :: "product_form \<Rightarrow> pos \<Rightarrow> js_error + notice \<times> pos" where
  "saveProduct f s =
     (case (form_price f, form_stock f) of
        (Some price', Some stock') \<Rightarrow>
          if form_name f = [] \<or> form_category f = []
          then Inr (Toast (Text ''Please fill all required fields'') ''warning'', s)
          else
            let quickKey' = (case form_quickKey f of None \<Rightarrow> None
                             | Some k \<Rightarrow> if k = 0 then None else Some k) in
            (case currentEditId s of
               Some editId \<Rightarrow>
                 if editId = 0
                 then Inr (Toast (Text ''Product added successfully'') ''success'',
                        s\<lparr>products := products s @
                             [\<lparr>prod_id = form_now f, prod_name = form_name f,
                               category = form_category f, price = price', stock = stock',
                               barcode = form_barcode f, description = form_description f,
                               quickKey = quickKey'\<rparr>],
                          currentEditId := None\<rparr>)
                 else
                   (case find (\<lambda>p. prod_id p = editId) (products s) of
                      None \<Rightarrow> Inl TypeError
                    | Some product \<Rightarrow>
                        Inr (Toast (Text ''Product updated successfully'') ''success'',
                          s\<lparr>products := mutate_first (\<lambda>p. prod_id p = editId)
                                 (\<lambda>p. p\<lparr>prod_name := form_name f, category := form_category f,
                                        price := price', stock := stock',
                                        barcode := form_barcode f,
                                        description := form_description f,
                                        quickKey := quickKey'\<rparr>) (products s),
                            currentEditId := None\<rparr>))
             | None \<Rightarrow>
                 Inr (Toast (Text ''Product added successfully'') ''success'',
                   s\<lparr>products := products s @
                        [\<lparr>prod_id = form_now f, prod_name = form_name f,
                          category = form_category f, price = price', stock = stock',
                          barcode = form_barcode f, description = form_description f,
                          quickKey = quickKey'\<rparr>],
                     currentEditId := None\<rparr>))
      | _ \<Rightarrow> Inr (Toast (Text ''Please fill all required fields'') ''warning'', s))"

text \<open>\<^verbatim>\<open>deleteProduct\<close> asks for confirmation first; the answer is an argument.\<close>

definition deleteProduct :: "bool \<Rightarrow> int \<Rightarrow> pos \<Rightarrow> notice \<times> pos" where
  "deleteProduct confirmed productId s =
     (if \<not> confirmed then (Silent, s)
      else (Toast (Text ''Product deleted successfully'') ''success'',
            s\<lparr>products := filter (\<lambda>p. prod_id p \<noteq> productId) (products s),
              cart := filter (\<lambda>item. item_id item \<noteq> productId) (cart s)\<rparr>))"

definition reorderProduct :: "int \<Rightarrow> int \<Rightarrow> pos \<Rightarrow> notice \<times> pos" where
  "reorderProduct productId qty s =
     (case find (\<lambda>p. prod_id p = productId) (products s) of
        Some product \<Rightarrow>
          (Toast (Reordered qty (prod_name product)) ''success'',
           s\<lparr>products := mutate_first (\<lambda>p. prod_id p = productId)
                  (\<lambda>p. p\<lparr>stock := stock p + qty\<rparr>) (products s)\<rparr>)
      | None \<Rightarrow> (Silent, s))"

section \<open>Users and permissions\<close>

definition hasPermission :: "string \<Rightarrow> pos \<Rightarrow> bool" where
  "hasPermission permission s =
     (case currentUser s of
        None \<Rightarrow> False
      | Some u \<Rightarrow>
          if permission = ''admin'' then role u = ''admin''
          else if permission = ''manager'' then role u \<in> set [''admin'', ''manager'']
          else if permission = ''cashier'' then role u \<in> set [''admin'', ''manager'', ''cashier'']
          else False)"

text \<open>
  The argument of \<^verbatim>\<open>addUser\<close>; a missing or empty \<^verbatim>\<open>email\<close> becomes the empty
  string. The clock is read for the id and for the creation date.
\<close>

record user_data =
  ud_name :: string
  ud_username :: string
  ud_password :: string
  ud_role :: string
  ud_email :: "string option"

definition addUser :: "user_data \<Rightarrow> int \<Rightarrow> int \<Rightarrow> pos \<Rightarrow> bool \<times> notice \<times> pos" where
  "addUser userData idClock dateClock s =
     (if \<not> hasPermission ''admin'' s
      then (False, Toast (Text ''Insufficient permissions'') ''error'', s)
      else if list_ex (\<lambda>u. username u = ud_username userData) (users s)
      then (False, Toast (Text ''Username already exists'') ''error'', s)
      else
        let newUser = \<lparr>user_id = idClock, user_name = ud_name userData,
                        username = ud_username userData, password = ud_password userData,
                        role = ud_role userData,
                        email = (case ud_email userData of None \<Rightarrow> [] | Some e \<Rightarrow> e),
                        lastLogin = None, isActive = True, createdAt = dateClock\<rparr>
        in (True, Toast (Text ''User added successfully'') ''success'',
            s\<lparr>users := users s @ [newUser]\<rparr>))"

section \<open>Forecast\<close>

text \<open>
  The local-time calendar of \<^verbatim>\<open>Date\<close> (time zone, daylight saving, month lengths) is
  not part of the program; the operations the code uses are parameters. Every date is
  its time value in milliseconds.
\<close>

record calendar =
  minusDays :: "int \<Rightarrow> int \<Rightarrow> int"
  dayStart :: "int \<Rightarrow> int"
  dayEnd :: "int \<Rightarrow> int"
  weekStart :: "int \<Rightarrow> int"
  weekEnd :: "int \<Rightarrow> int"
  monthStart :: "int \<Rightarrow> int"
  monthEnd :: "int \<Rightarrow> int"
  endOfDay :: "int \<Rightarrow> int"

record stock_alert =
  alert_id :: int
  alert_name :: string
  alert_currentStock :: int
  suggestedReorder :: int

record reorder_suggestion =
  ro_id :: int
  ro_name :: string
  ro_currentStock :: int
  suggestedStock :: int
  reorderAmount :: int
  ro_velocity :: rat

record prediction =
  pred_name :: string
  currentVelocity :: rat
  predictedVelocity :: rat
  confidence :: rat
  recommendedStock :: int

record forecast =
  lowStockAlerts :: "stock_alert list"
  reorderSuggestions :: "reorder_suggestion list"
  demandPredictions :: "int \<rightharpoonup> prediction"

text \<open>
  The reducer both velocity and trend use: the quantity of the first line of the sale
  with the product's id, 0 when there is none.
\<close>

definition soldIn :: "int \<Rightarrow> int \<Rightarrow> sale \<Rightarrow> int" where
  "soldIn productId acc sale' =
     acc + (case find (\<lambda>i. item_id i = productId) (items sale') of
              Some item \<Rightarrow> quantity item | None \<Rightarrow> 0)"

definition getProductSalesVelocity :: "calendar \<Rightarrow> int \<Rightarrow> int \<Rightarrow> pos \<Rightarrow> rat" where
  "getProductSalesVelocity cal now productId s =
     (let last30Days = minusDays cal now 30;
          recentSales = filter (\<lambda>sale'. sale_date sale' \<ge> last30Days \<and>
                                  list_ex (\<lambda>item. item_id item = productId) (items sale')) (sales s);
          totalSold = foldl (soldIn productId) 0 recentSales
      in of_int totalSold / 30)"

definition calculateProductTrend :: "int \<Rightarrow> int \<Rightarrow> pos \<Rightarrow> rat" where
  "calculateProductTrend now productId s =
     (let last60Days = now - 60 * 24 * 60 * 60 * 1000;
          prev60Days = last60Days - 60 * 24 * 60 * 60 * 1000;
          recentSales = filter (\<lambda>sale'. sale_date sale' \<ge> last60Days \<and>
                                  list_ex (\<lambda>item. item_id item = productId) (items sale')) (sales s);
          oldSales = filter (\<lambda>sale'. sale_date sale' \<ge> prev60Days \<and> sale_date sale' < last60Days \<and>
                               list_ex (\<lambda>item. item_id item = productId) (items sale')) (sales s);
          recentTotal = foldl (soldIn productId) 0 recentSales;
          oldTotal = foldl (soldIn productId) 0 oldSales
      in if oldTotal = 0 then (if recentTotal > 0 then 1 / 2 else 0)
         else of_int (recentTotal - oldTotal) / of_int oldTotal)"

definition calculateDemandPredictions :: "calendar \<Rightarrow> int \<Rightarrow> pos \<Rightarrow> (int \<rightharpoonup> prediction)" where
  "calculateDemandPredictions cal now s =
     foldl (\<lambda>predictions product.
              let velocity = getProductSalesVelocity cal now (prod_id product) s;
                  trend = calculateProductTrend now (prod_id product) s
              in predictions(prod_id product \<mapsto>
                   \<lparr>pred_name = prod_name product,
                    currentVelocity = velocity,
                    predictedVelocity = velocity * (1 + trend),
                    confidence = min (\<bar>trend\<bar> * 100) 90,
                    recommendedStock = \<lceil>(velocity * (1 + trend)) * 45\<rceil>\<rparr>))
       Map.empty (products s)"

text \<open>
  \<^verbatim>\<open>calculateInventoryForecast\<close> stores its result in a field that nothing else of the
  model reads; the model returns it. The weekly sales trend table is left out. The
  clock is read at each call of the helpers; one reading stands for all of them.
  \<^verbatim>\<open>Array.prototype.sort\<close> is stable, as \<open>sort_key\<close> is. The velocity is an exact
  rational here, so \<open>\<lceil>velocity * 30\<rceil>\<close> is the exact ceiling; the program's
  \<^verbatim>\<open>Math.ceil\<close> works on the rounded double and can be one more when the exact product
  is a whole number other than 0.
\<close>

definition calculateInventoryForecast :: "calendar \<Rightarrow> int \<Rightarrow> pos \<Rightarrow> forecast" where
  "calculateInventoryForecast cal now s =
     \<lparr>lowStockAlerts =
        map (\<lambda>product. \<lparr>alert_id = prod_id product, alert_name = prod_name product,
                         alert_currentStock = stock product,
                         suggestedReorder = max (50 - stock product) 20\<rparr>)
          (filter (\<lambda>product. stock product < 10) (products s)),
      reorderSuggestions =
        sort_key (\<lambda>item. - reorderAmount item)
          (filter (\<lambda>item. reorderAmount item > 0)
            (map (\<lambda>product.
                    let velocity = getProductSalesVelocity cal now (prod_id product) s;
                        suggestedStock' = \<lceil>velocity * 30\<rceil>;
                        reorderAmount' = max (suggestedStock' - stock product) 0
                    in \<lparr>ro_id = prod_id product, ro_name = prod_name product,
                        ro_currentStock = stock product, suggestedStock = suggestedStock',
                        reorderAmount = reorderAmount', ro_velocity = velocity\<rparr>)
               (filter (\<lambda>product. getProductSalesVelocity cal now (prod_id product) s > 0)
                  (products s)))),
      demandPredictions = calculateDemandPredictions cal now s\<rparr>"

section \<open>Reports\<close>

text \<open>
  String helpers of the search filter: \<^verbatim>\<open>toLowerCase\<close> (on the ASCII letters),
  \<^verbatim>\<open>includes\<close> (a contiguous substring, \<open>includesStr\<close>) and \<^verbatim>\<open>toString\<close> of an integer.
\<close>

definition lowerChar :: "char \<Rightarrow> char" where
  "lowerChar c = (let n = (of_char c :: nat) in if 65 \<le> n \<and> n \<le> 90 then char_of (n + 32) else c)"

definition toLowerCase :: "string \<Rightarrow> string" where
  "toLowerCase str = map lowerChar str"

fun startsWith :: "string \<Rightarrow> string \<Rightarrow> bool" where
  "startsWith str [] = True"
| "startsWith [] (c # cs) = False"
| "startsWith (x # xs) (c # cs) = (x = c \<and> startsWith xs cs)"

fun includesStr :: "string \<Rightarrow> string \<Rightarrow> bool" where
  "includesStr [] t = (t = [])"
| "includesStr (x # xs) t = (startsWith (x # xs) t \<or> includesStr xs t)"

fun natToString :: "nat \<Rightarrow> string" where
  "natToString n =
     (if n < 10 then [char_of (48 + n)]
      else natToString (n div 10) @ [char_of (48 + n mod 10)])"

definition toString :: "int \<Rightarrow> string" where
  "toString i = (if i < 0 then CHR ''-'' # natToString (nat (- i)) else natToString (nat i))"

text \<open>
  \<^verbatim>\<open>getFilteredSales\<close>. The custom range applies when both of its dates are set; any
  other range name than the four known ones leaves the dates undefined and filters
  nothing.
\<close>

definition getFilteredSales :: "calendar \<Rightarrow> int \<Rightarrow> pos \<Rightarrow> sale list" where
  "getFilteredSales cal now s =
     (let flt = currentFilter s;
          filteredSales = sales s;
          filteredSales =
            (if search flt \<noteq> []
             then (let searchTerm = toLowerCase (search flt)
                   in filter (\<lambda>sale'. includesStr (toLowerCase (cust_name (customer sale'))) searchTerm \<or>
                                      includesStr (toString (sale_id sale')) searchTerm) filteredSales)
             else filteredSales);
          filteredSales =
            (if dateRange flt \<noteq> ''all''
             then
               (let range =
                      (if dateRange flt = ''today'' then Some (dayStart cal now, dayEnd cal now)
                       else if dateRange flt = ''week''
                       then Some (weekStart cal now, weekEnd cal (weekStart cal now))
                       else if dateRange flt = ''month'' then Some (monthStart cal now, monthEnd cal now)
                       else if dateRange flt = ''custom''
                       then (case (startDate flt, endDate flt) of
                               (Some a, Some b) \<Rightarrow> Some (a, endOfDay cal b)
                             | _ \<Rightarrow> None)
                       else None)
                in case range of
                     Some (startDate', endDate') \<Rightarrow>
                       filter (\<lambda>sale'. sale_date sale' \<ge> startDate' \<and> sale_date sale' \<le> endDate')
                         filteredSales
                   | None \<Rightarrow> filteredSales)
             else filteredSales)
      in sort_key (\<lambda>sale'. - sale_date sale') filteredSales)"

declare natToString.simps [simp del]

section \<open>The spec's formulas\<close>

text \<open>
  The amounts as the specification words them, to be compared with what the code
  computes: the subtotal is the sum of price times quantity over the lines; the discount
  is nothing for a value that is not positive, the percentage of the subtotal for a
  percentage discount, and otherwise the value capped at the subtotal.
\<close>

definition spec_subtotal :: "cart_item list \<Rightarrow> rat" where
  "spec_subtotal c = (\<Sum>item\<leftarrow>c. item_price item * of_int (quantity item))"

definition spec_discount :: "discount_cfg \<Rightarrow> rat \<Rightarrow> rat" where
  "spec_discount d sub =
     (if disc_value d \<le> 0 then 0
      else if disc_type d = ''percentage'' then sub * (disc_value d / 100)
      else min (disc_value d) sub)"

section \<open>Example states\<close>

text \<open>
  Two of the sample products of \<^verbatim>\<open>addSampleProducts\<close>, the default administrator of
  \<^verbatim>\<open>loadUsers\<close>, and the state of a fresh session with them.
\<close>

definition ex_laptop :: product where
  "ex_laptop = \<lparr>prod_id = 1, prod_name = ''Laptop'', category = ''Electronics'',
     price = 74999, stock = 10, barcode = [], description = ''High-performance laptop'',
     quickKey = None\<rparr>"

definition ex_mouse :: product where
  "ex_mouse = \<lparr>prod_id = 2, prod_name = ''Mouse'', category = ''Electronics'',
     price = 2249, stock = 50, barcode = [], description = ''Wireless optical mouse'',
     quickKey = None\<rparr>"

definition ex_admin :: user where
  "ex_admin = \<lparr>user_id = 1, user_name = ''Administrator'', username = ''admin'',
     password = ''admin123'', role = ''admin'', email = [], lastLogin = None,
     isActive = True, createdAt = 0\<rparr>"

definition ex_init :: pos where
  "ex_init = \<lparr>products = [ex_laptop, ex_mouse], cart = [], sales = [],
     discount = \<lparr>disc_type = ''percentage'', disc_value = 0, disc_code = []\<rparr>,
     currentEditId = None,
     currentFilter = \<lparr>search = [], dateRange = ''all'', startDate = None, endDate = None\<rparr>,
     currentUser = Some ex_admin, users = [ex_admin]\<rparr>"

definition ex_env :: "int \<Rightarrow> checkout_env" where
  "ex_env t = \<lparr>customerName = ''Asha'', customerPhone = ''555'', taxEnabled = True,
     idNow = t, dateNow = t\<rparr>"

text \<open>A calendar on universal time with months of thirty days, for evaluating the date windows.\<close>

definition ex_cal :: calendar where
  "ex_cal = \<lparr>minusDays = (\<lambda>t n. t - n * 86400000),
     dayStart = (\<lambda>t. t - t mod 86400000),
     dayEnd = (\<lambda>t. t - t mod 86400000 + 86399000),
     weekStart = (\<lambda>t. t - (t + 345600000) mod 604800000),
     weekEnd = (\<lambda>t. t + 604799999),
     monthStart = (\<lambda>t. t - t mod 2592000000),
     monthEnd = (\<lambda>t. t - t mod 2592000000 + 2591999000),
     endOfDay = (\<lambda>t. t - t mod 86400000 + 86399999)\<rparr>"

section \<open>Sessions\<close>

text \<open>
  The listeners of \<^verbatim>\<open>setupEventListeners\<close> call one method for each user action, and a
  session is a sequence of such actions. A method that throws has written nothing
  before it throws, so the state stays as it was.
\<close>

datatype event =
  AddToCart int
  | UpdateQuantity int int
  | RemoveFromCart int
  | ApplyDiscount string "rat option" string
  | Checkout checkout_env
  | OpenProductModal "int option"
  | SaveProduct product_form
  | DeleteProduct bool int
  | ReorderProduct int int

fun step :: "pos \<Rightarrow> event \<Rightarrow> pos" where
  "step s (AddToCart productId) = snd (addToCart productId s)"
| "step s (UpdateQuantity productId change) =
     (case updateQuantity productId change s of Inr (n, s') \<Rightarrow> s' | Inl e \<Rightarrow> s)"
| "step s (RemoveFromCart productId) = removeFromCart productId s"
| "step s (ApplyDiscount code parsed ty) = snd (applyDiscount code parsed ty s)"
| "step s (Checkout env) = snd (checkout env s)"
| "step s (OpenProductModal productId) =
     (case openProductModal productId s of Inr s' \<Rightarrow> s' | Inl e \<Rightarrow> s)"
| "step s (SaveProduct f) =
     (case saveProduct f s of Inr (n, s') \<Rightarrow> s' | Inl e \<Rightarrow> s)"
| "step s (DeleteProduct confirmed productId) = snd (deleteProduct confirmed productId s)"
| "step s (ReorderProduct productId qty) = snd (reorderProduct productId qty s)"

definition run :: "event list \<Rightarrow> pos \<Rightarrow> pos" where
  "run es s = foldl step s es"

text \<open>The product form filled in to set the stock of the laptop to one unit.\<close>

definition ex_edit_form :: product_form where
  "ex_edit_form = \<lparr>form_name = ''Laptop'', form_category = ''Electronics'',
     form_price = Some 74999, form_stock = Some 1, form_barcode = [],
     form_description = ''High-performance laptop'', form_quickKey = None, form_now = 500\<rparr>"


text \<open>A session that sells two laptops at clock reading 1000.\<close>

definition ex_sold :: pos where
  "ex_sold = run [AddToCart 1, AddToCart 1, Checkout (ex_env 1000)] ex_init"





section \<open>Stock bound\<close>


section \<open>Forecast windows\<close>

text \<open>
  The forecast reads three windows of the ledger: the sales of the last thirty calendar
  days for the velocity, and those of the last sixty and of the sixty days before for
  the trend. A product has no units sold in them when every sale dated inside one of
  them holds no line of the product with a quantity other than 0.
\<close>

definition noUnitsSold :: "calendar \<Rightarrow> int \<Rightarrow> int \<Rightarrow> pos \<Rightarrow> bool" where
  "noUnitsSold cal now productId s =
     list_all (\<lambda>sale'.
        (sale_date sale' \<ge> minusDays cal now 30 \<or>
         sale_date sale' \<ge> now - 2 * (60 * 24 * 60 * 60 * 1000)) \<longrightarrow>
        list_all (\<lambda>item. item_id item = productId \<longrightarrow> quantity item = 0) (items sale'))
       (sales s)"

section \<open>Properties\<close>

lemma foldl_subtotal:
  "foldl (\<lambda>sum item. sum + item_price item * of_int (quantity item)) a c
   = a + (\<Sum>item\<leftarrow>c. item_price item * of_int (quantity item))"
  by (induction c arbitrary: a) (simp_all add: add.assoc)

subsection \<open>Pricing\<close>

lemma summary_fields:
  "sum_subtotal (updateCartSummary tx s) = spec_subtotal (cart s)"
  "sum_discount (updateCartSummary tx s) = spec_discount (discount s) (spec_subtotal (cart s))"
  "sum_discounted (updateCartSummary tx s) =
     spec_subtotal (cart s) - spec_discount (discount s) (spec_subtotal (cart s))"
  "sum_tax (updateCartSummary tx s) =
     (if tx then (1 / 10) * (spec_subtotal (cart s) - spec_discount (discount s) (spec_subtotal (cart s)))
      else 0)"
  "sum_total (updateCartSummary tx s) =
     sum_discounted (updateCartSummary tx s) + sum_tax (updateCartSummary tx s)"
  by (simp_all add: updateCartSummary_def Let_def foldl_subtotal spec_subtotal_def spec_discount_def not_less)

text \<open>
  A checkout of a cart that is not empty, written out: the sale carries the amounts
  \<^verbatim>\<open>updateCartSummary\<close> shows for the same state, since both compute them alike.
\<close>

lemma checkout_nonempty:
  "cart s \<noteq> [] \<Longrightarrow>
   checkout env s =
     (Toast (Text ''Sale completed successfully'') ''success'',
      s\<lparr>products := updateStock (cart s) (products s),
        sales := sales s @
          [\<lparr>sale_id = idNow env, sale_date = dateNow env,
            customer = \<lparr>cust_name = customerName env, cust_phone = customerPhone env\<rparr>,
            items = cart s,
            sale_subtotal = sum_subtotal (updateCartSummary (taxEnabled env) s),
            sale_discount = sum_discount (updateCartSummary (taxEnabled env) s),
            sale_discountType = disc_type (discount s),
            sale_discountValue = disc_value (discount s),
            sale_tax = sum_tax (updateCartSummary (taxEnabled env) s),
            sale_total = sum_total (updateCartSummary (taxEnabled env) s)\<rparr>],
        cart := [],
        discount := \<lparr>disc_type = ''percentage'', disc_value = 0, disc_code = ''''\<rparr>\<rparr>)"
  by (simp add: checkout_def updateCartSummary_def Let_def)



lemma spec_subtotal_nonneg:
  "\<forall>item\<in>set c. item_price item \<ge> 0 \<and> quantity item \<ge> 1 \<Longrightarrow> spec_subtotal c \<ge> 0"
  unfolding spec_subtotal_def by (induction c) simp_all

lemma spec_discount_le:
  assumes "sub \<ge> 0" "disc_type d = ''percentage'' \<longrightarrow> disc_value d \<le> 100"
  shows "spec_discount d sub \<le> sub"
proof (cases "disc_value d \<le> 0")
  case True
  with assms show ?thesis by (simp add: spec_discount_def)
next
  case False
  show ?thesis
  proof (cases "disc_type d = ''percentage''")
    case True
    with assms have "disc_value d / 100 \<le> 1" by simp
    with assms(1) have "sub * (disc_value d / 100) \<le> sub * 1"
      by (rule mult_left_mono[rotated])
    with True False show ?thesis by (simp add: spec_discount_def)
  next
    case False
    with assms(1) show ?thesis by (simp add: spec_discount_def)
  qed
qed

text \<open>
  What \<^verbatim>\<open>applyDiscount\<close> can leave behind: the state as it was, or a discount whose
  value is positive and, for a percentage, at most 100.
\<close>

lemma applyDiscount_result:
  "applyDiscount code parsed ty s = (n, s') \<Longrightarrow>
   s' = s \<or> (disc_value (discount s') > 0 \<and>
            (disc_type (discount s') = ''percentage'' \<longrightarrow> disc_value (discount s') \<le> 100) \<and>
            cart s' = cart s)"
  by (auto simp: applyDiscount_def Let_def split: if_splits option.splits)

subsection \<open>Checkout\<close>

text \<open>
  Claim C5. A checkout with an empty cart shows the warning and returns the state it was
  given: ledger, stocks, cart and discount are as before the call.
\<close>

theorem checkout_empty_cart:
  "cart s = [] \<Longrightarrow> checkout env s = (Toast (Text ''Cart is empty'') ''warning'', s)"
  by (simp add: checkout_def)

theorem checkout_empty_cart_witness:
  "cart ex_init = [] \<and>
   checkout (ex_env 1000) ex_init = (Toast (Text ''Cart is empty'') ''warning'', ex_init)"
  using checkout_empty_cart [of ex_init "ex_env 1000"] by (simp add: ex_init_def)

subsection \<open>Evaluating the examples\<close>

lemmas ex_defs = ex_init_def ex_laptop_def ex_mouse_def ex_env_def ex_edit_form_def ex_admin_def

subsection \<open>Totals in the range of the numbers\<close>

lemma overflowAt_gt: "1 < overflowAt"
  by (simp add: overflowAt_def)

lemma overflowAt_pos: "0 < overflowAt"
  using overflowAt_gt by simp







lemma fromRat_in_range: "- overflowAt < r \<Longrightarrow> r < overflowAt \<Longrightarrow> fromRat r = Num r"
  by (simp add: fromRat_def)



text \<open>
  As long as the amounts stay below the overflow bound, the summary on the program's
  numbers is the summary in exact arithmetic.
\<close>

lemma subtotal_in_range:
  assumes "\<forall>item\<in>set c. item_price item \<ge> 0 \<and> quantity item \<ge> 1"
    and "0 \<le> a" and "a + spec_subtotal c < overflowAt"
  shows "foldl (\<lambda>sum item. js_add sum (js_mul (Num (item_price item))
                                         (Num (of_int (quantity item))))) (Num a) c
         = Num (a + spec_subtotal c)"
  using assms
proof (induction c arbitrary: a)
  case Nil
  then show ?case by (simp add: spec_subtotal_def)
next
  case (Cons item c)
  define t where "t = item_price item * of_int (quantity item)"
  from Cons.prems(1) have t: "0 \<le> t" by (simp add: t_def)
  from Cons.prems(1) have rest: "0 \<le> spec_subtotal c" by (intro spec_subtotal_nonneg) simp
  have split: "spec_subtotal (item # c) = t + spec_subtotal c"
    by (simp add: spec_subtotal_def t_def)
  from Cons.prems(2,3) t rest have "t < overflowAt" "a + t < overflowAt"
    unfolding split by simp_all
  with t Cons.prems(2) overflowAt_pos have "fromRat t = Num t" "fromRat (a + t) = Num (a + t)"
    by (simp_all add: fromRat_in_range)
  then have step: "js_add (Num a) (js_mul (Num (item_price item)) (Num (of_int (quantity item))))
                   = Num (a + t)"
    by (simp add: t_def)
  have "foldl (\<lambda>sum item. js_add sum (js_mul (Num (item_price item))
                                         (Num (of_int (quantity item))))) (Num (a + t)) c
        = Num ((a + t) + spec_subtotal c)"
    using Cons.prems t by (intro Cons.IH) (simp_all add: split add.assoc)
  then show ?case by (simp only: foldl_Cons step split add.assoc)
qed

lemma summary_in_range:
  assumes "\<forall>item\<in>set (cart s). item_price item \<ge> 0 \<and> quantity item \<ge> 1"
    and "disc_value (discount s) > 0"
    and "disc_type (discount s) = ''percentage'' \<longrightarrow> disc_value (discount s) \<le> 100"
    and "sum_subtotal (updateCartSummary tx s) < overflowAt"
    and "sum_total (updateCartSummary tx s) < overflowAt"
  shows "updateCartSummaryJs tx s =
           \<lparr>js_subtotal = Num (sum_subtotal (updateCartSummary tx s)),
            js_discountAmount = Num (sum_discount (updateCartSummary tx s)),
            js_discountedSubtotal = Num (sum_discounted (updateCartSummary tx s)),
            js_tax = Num (sum_tax (updateCartSummary tx s)),
            js_total = Num (sum_total (updateCartSummary tx s))\<rparr>"
proof -
  define sub where "sub = spec_subtotal (cart s)"
  define v where "v = disc_value (discount s)"
  define d where "d = spec_discount (discount s) sub"
  have sub0: "0 \<le> sub" unfolding sub_def using assms(1) by (rule spec_subtotal_nonneg)
  have subT: "sub < overflowAt" using assms(4) by (simp add: summary_fields sub_def)
  have v: "0 < v" using assms(2) by (simp add: v_def)
  have dle: "d \<le> sub" unfolding d_def using sub0 assms(3) by (rule spec_discount_le)
  have d0: "0 \<le> d"
    using sub0 v by (simp add: d_def spec_discount_def v_def)
  have totT: "(if tx then (sub - d) + (sub - d) * (1 / 10) else sub - d) < overflowAt"
    using assms(5) by (cases tx) (simp_all add: summary_fields sub_def d_def)
  have fsub: "foldl (\<lambda>sum item. js_add sum (js_mul (Num (item_price item))
                                         (Num (of_int (quantity item))))) (Num 0) (cart s)
              = Num sub"
    using subtotal_in_range [OF assms(1), of 0] subT by (simp add: sub_def)
  have fdisc: "(if disc_value (discount s) > 0
                then (if disc_type (discount s) = ''percentage''
                      then js_mul (Num sub) (js_div (Num (disc_value (discount s))) (Num 100))
                      else js_min (Num (disc_value (discount s))) (Num sub))
                else Num 0) = Num d"
  proof (cases "disc_type (discount s) = ''percentage''")
    case True
    with assms(3) v have q: "0 < v / 100" "v / 100 \<le> 1" by (simp_all add: v_def)
    with overflowAt_gt have "fromRat (v / 100) = Num (v / 100)"
      by (intro fromRat_in_range) simp_all
    moreover have "d = sub * (v / 100)"
      using True v by (simp add: d_def spec_discount_def v_def)
    moreover from this d0 dle subT overflowAt_pos have "fromRat (sub * (v / 100)) = Num d"
      by (intro fromRat_in_range[THEN trans]) simp_all
    ultimately show ?thesis using True v by (simp add: v_def)
  next
    case False
    with v show ?thesis by (simp add: d_def spec_discount_def v_def)
  qed
  have fdis: "js_sub (Num sub) (Num d) = Num (sub - d)"
    using d0 dle subT overflowAt_pos by (simp add: js_sub_def fromRat_in_range)
  have ftax: "(if tx then js_mul (Num (sub - d)) (Num (1 / 10)) else Num 0)
              = Num (if tx then (sub - d) * (1 / 10) else 0)"
    using d0 dle subT overflowAt_pos by (simp add: fromRat_in_range)
  have "0 \<le> (if tx then (sub - d) + (sub - d) * (1 / 10) else sub - d)"
    using dle by simp
  with totT overflowAt_pos
  have "fromRat (if tx then (sub - d) + (sub - d) * (1 / 10) else sub - d)
        = Num (if tx then (sub - d) + (sub - d) * (1 / 10) else sub - d)"
    by (intro fromRat_in_range) linarith+
  then have ftot: "js_add (Num (sub - d)) (Num (if tx then (sub - d) * (1 / 10) else 0))
              = Num (if tx then (sub - d) + (sub - d) * (1 / 10) else sub - d)"
    by (cases tx) simp_all
  show ?thesis
    unfolding updateCartSummaryJs_def Let_def fsub fdisc fdis ftax ftot
    by (simp add: summary_fields sub_def d_def)
qed









subsection \<open>Stock\<close>

text \<open>
  Looking a key up after the first match for a key was mutated, when the mutation keeps
  the key.
\<close>

lemma find_mutate_first:
  assumes "\<And>x. key (f x) = key x"
  shows "find (\<lambda>x. key x = a) (mutate_first (\<lambda>x. key x = b) f xs)
         = (if a = b then map_option f (find (\<lambda>x. key x = a) xs) else find (\<lambda>x. key x = a) xs)"
  using assms by (induction xs) auto

lemma updateStock_Cons:
  "updateStock (l # c) ps =
     updateStock c
       (case find (\<lambda>p. prod_id p = item_id l) ps of
          Some product \<Rightarrow> mutate_first (\<lambda>p. prod_id p = item_id l)
              (\<lambda>p. p\<lparr>stock := stock p - quantity l\<rparr>) ps
        | None \<Rightarrow> ps)"
  by (simp add: updateStock_def)

lemma find_stock_step:
  "find (\<lambda>p. prod_id p = pid)
     (case find (\<lambda>p. prod_id p = item_id l) ps of
        Some product \<Rightarrow> mutate_first (\<lambda>p. prod_id p = item_id l)
            (\<lambda>p. p\<lparr>stock := stock p - quantity l\<rparr>) ps
      | None \<Rightarrow> ps)
   = (if pid = item_id l
      then map_option (\<lambda>p. p\<lparr>stock := stock p - quantity l\<rparr>) (find (\<lambda>p. prod_id p = pid) ps)
      else find (\<lambda>p. prod_id p = pid) ps)"
  by (cases "find (\<lambda>p. prod_id p = item_id l) ps")
     (simp_all add: find_mutate_first [where key = prod_id])

text \<open>
  The product found under an id after the stock update is the one found before, its
  stock less the quantities of the cart lines with that id.
\<close>

lemma find_updateStock:
  "find (\<lambda>p. prod_id p = pid) (updateStock c ps)
   = map_option (\<lambda>p. p\<lparr>stock := stock p - (\<Sum>l\<leftarrow>filter (\<lambda>l. item_id l = pid) c. quantity l)\<rparr>)
       (find (\<lambda>p. prod_id p = pid) ps)"
proof (induction c arbitrary: ps)
  case Nil
  show ?case by (simp add: updateStock_def option.map_ident)
next
  case (Cons l c)
  show ?case
    unfolding updateStock_Cons Cons.IH find_stock_step
    by (cases "find (\<lambda>p. prod_id p = pid) ps") (auto simp: option.map_comp o_def)
qed


text \<open>
  The cart holds at most one line for each product id: \<^verbatim>\<open>addToCart\<close> appends a line
  only when it finds none with the id, and no operation of a session breaks this.
\<close>

lemma map_key_mutate_first:
  "(\<And>x. key (f x) = key x) \<Longrightarrow> map key (mutate_first P f xs) = map key xs"
  by (induction xs) simp_all

lemma addToCart_distinct:
  assumes "distinct (map item_id (cart s))"
  shows "distinct (map item_id (cart (snd (addToCart productId s))))"
proof (cases "find (\<lambda>p. prod_id p = productId) (products s)")
  case None
  with assms show ?thesis by (simp add: addToCart_def)
next
  case (Some product)
  then have pid: "prod_id product = productId" by (auto simp: find_Some_iff)
  show ?thesis
  proof (cases "find (\<lambda>item. item_id item = productId) (cart s)")
    case None
    then have "productId \<notin> item_id ` set (cart s)" by (auto simp: find_None_iff)
    with assms Some pid None show ?thesis by (simp add: addToCart_def)
  next
    case (Some existingItem)
    with assms \<open>find (\<lambda>p. prod_id p = productId) (products s) = Some product\<close>
    show ?thesis by (simp add: addToCart_def map_key_mutate_first)
  qed
qed

lemma step_distinct:
  assumes "distinct (map item_id (cart s))"
  shows "distinct (map item_id (cart (step s e)))"
proof (cases e)
  case (AddToCart i)
  with assms show ?thesis by (simp add: addToCart_distinct)
next
  case (UpdateQuantity i c)
  with assms show ?thesis
    by (auto simp: updateQuantity_def removeFromCart_def Let_def map_key_mutate_first
        distinct_map_filter split: option.splits)
next
  case (RemoveFromCart i)
  with assms show ?thesis by (simp add: removeFromCart_def distinct_map_filter)
next
  case (ApplyDiscount code parsed ty)
  with assms show ?thesis by (simp add: applyDiscount_def Let_def)
next
  case (Checkout env)
  with assms show ?thesis by (simp add: checkout_def Let_def)
next
  case (OpenProductModal i)
  with assms show ?thesis by (auto simp: openProductModal_def split: option.splits)
next
  case (SaveProduct f)
  with assms show ?thesis by (auto simp: saveProduct_def Let_def split: option.splits)
next
  case (DeleteProduct c i)
  with assms show ?thesis by (simp add: deleteProduct_def distinct_map_filter)
next
  case (ReorderProduct i q)
  with assms show ?thesis by (auto simp: reorderProduct_def split: option.splits)
qed

lemma run_distinct:
  "distinct (map item_id (cart s)) \<Longrightarrow> distinct (map item_id (cart (run es s)))"
  unfolding run_def by (induction es arbitrary: s) (simp_all add: step_distinct)







text \<open>
  Claim C3. Every stock should stay at 0 or above through every sequence of operations.
  The code breaks it: three laptops are put in the cart while ten are in stock, the
  stock is edited to one, and the checkout takes three from one.
\<close>

theorem stock_negative_after_edit:
  "map stock (products ex_init) = [10, 50] \<and>
   form_stock ex_edit_form = Some 1 \<and>
   map stock (products
     (run [AddToCart 1, AddToCart 1, AddToCart 1, OpenProductModal (Some 1),
           SaveProduct ex_edit_form, Checkout (ex_env 1000)] ex_init)) = [- 2, 50]"
  by (simp add: run_def addToCart_def openProductModal_def saveProduct_def checkout_def
      updateStock_def ex_defs)


text \<open>A line whose product is not in the catalog adds nothing to the stock update.\<close>

lemma updateStock_skip:
  "find (\<lambda>p. prod_id p = pid) ps = None \<Longrightarrow>
   updateStock c ps = updateStock (filter (\<lambda>l. item_id l \<noteq> pid) c) ps"
proof (induction c arbitrary: ps)
  case Nil
  show ?case by simp
next
  case (Cons l c)
  show ?case
  proof (cases "item_id l = pid")
    case True
    with Cons.prems have "updateStock (l # c) ps = updateStock c ps"
      by (simp add: updateStock_Cons)
    with True Cons show ?thesis by simp
  next
    case False
    let ?ps' = "(case find (\<lambda>p. prod_id p = item_id l) ps of
                   Some product \<Rightarrow> mutate_first (\<lambda>p. prod_id p = item_id l)
                       (\<lambda>p. p\<lparr>stock := stock p - quantity l\<rparr>) ps
                 | None \<Rightarrow> ps)"
    from False Cons.prems have "find (\<lambda>p. prod_id p = pid) ?ps' = None"
      by (simp add: find_stock_step)
    then have "updateStock c ?ps' = updateStock (filter (\<lambda>l. item_id l \<noteq> pid) c) ?ps'"
      by (rule Cons.IH)
    with False show ?thesis by (simp add: updateStock_Cons)
  qed
qed

text \<open>
  \<^verbatim>\<open>deleteProduct\<close> takes the product's line out of the cart together with the
  product, so a deletion leaves no line without a product behind.
\<close>

lemma deleteProduct_clears_line:
  "\<forall>item\<in>set (cart (snd (deleteProduct True productId s))). item_id item \<noteq> productId"
  by (simp add: deleteProduct_def)

text \<open>
  Claim C10. When a cart line's product id matches no product of the catalog, the
  checkout completes all the same; the catalog is updated as if the line were not in
  the cart and still has no product of that id; and the sale appended holds the whole
  cart, that line with it, its subtotal counting the line's price times quantity.
\<close>

theorem checkout_missing_product:
  assumes "line \<in> set (cart s)"
    and "find (\<lambda>p. prod_id p = item_id line) (products s) = None"
  shows "fst (checkout env s) = Toast (Text ''Sale completed successfully'') ''success'' \<and>
         products (snd (checkout env s))
           = updateStock (filter (\<lambda>l. item_id l \<noteq> item_id line) (cart s)) (products s) \<and>
         find (\<lambda>p. prod_id p = item_id line) (products (snd (checkout env s))) = None \<and>
         sales (snd (checkout env s)) = sales s @ [last (sales (snd (checkout env s)))] \<and>
         items (last (sales (snd (checkout env s)))) = cart s \<and>
         sale_subtotal (last (sales (snd (checkout env s))))
           = item_price line * of_int (quantity line) + spec_subtotal (remove1 line (cart s))"
proof -
  from assms(1) have ne: "cart s \<noteq> []" by auto
  have sub: "spec_subtotal (cart s)
             = item_price line * of_int (quantity line) + spec_subtotal (remove1 line (cart s))"
    unfolding spec_subtotal_def using assms(1) by (rule sum_list_map_remove1)
  have skip: "updateStock (cart s) (products s)
              = updateStock (filter (\<lambda>l. item_id l \<noteq> item_id line) (cart s)) (products s)"
    using assms(2) by (rule updateStock_skip)
  have gone: "find (\<lambda>p. prod_id p = item_id line) (updateStock (cart s) (products s)) = None"
    by (simp add: find_updateStock assms(2))
  show ?thesis
    using sub skip gone by (simp add: checkout_nonempty [OF ne] summary_fields)
qed

theorem checkout_missing_product_witness:
  "(let line = \<lparr>item_id = 9, item_name = ''Ghost'', item_price = 5, quantity = 2\<rparr>;
        s = ex_init\<lparr>cart := [line]\<rparr>
    in line \<in> set (cart s) \<and> find (\<lambda>p. prod_id p = item_id line) (products s) = None \<and>
       products (snd (checkout (ex_env 1000) s)) = products s \<and>
       sale_subtotal (last (sales (snd (checkout (ex_env 1000) s)))) = 10)"
  using checkout_missing_product
    [of "\<lparr>item_id = 9, item_name = ''Ghost'', item_price = 5, quantity = 2\<rparr>"
        "ex_init\<lparr>cart := [\<lparr>item_id = 9, item_name = ''Ghost'', item_price = 5, quantity = 2\<rparr>]\<rparr>"
        "ex_env 1000"]
  by (simp add: Let_def ex_defs updateStock_def spec_subtotal_def)

subsection \<open>Sale ids\<close>

text \<open>
  Claim C6, as amended. The id of a sale is the clock reading at its checkout. When the
  ids of the ledger are strictly increasing and all below the clock reading of a
  checkout, they are strictly increasing, and so distinct, after it. Nothing in the code
  makes a later reading greater.
\<close>

theorem sale_ids_increasing:
  assumes "cart s \<noteq> []"
    and "sorted_wrt (<) (map sale_id (sales s))"
    and "\<forall>x\<in>set (sales s). sale_id x < idNow env"
  shows "sale_id (last (sales (snd (checkout env s)))) = idNow env \<and>
         sorted_wrt (<) (map sale_id (sales (snd (checkout env s)))) \<and>
         distinct (map sale_id (sales (snd (checkout env s))))"
proof -
  have "sorted_wrt (<) (map sale_id (sales (snd (checkout env s))))"
    using assms(2,3) by (simp add: checkout_nonempty [OF assms(1)] sorted_wrt_append)
  moreover from this have "distinct (map sale_id (sales (snd (checkout env s))))"
    by (simp add: strict_sorted_iff)
  ultimately show ?thesis by (simp add: checkout_nonempty [OF assms(1)])
qed

theorem sale_ids_increasing_witness:
  "(let s = run [AddToCart 1, Checkout (ex_env 1000), AddToCart 2] ex_init
    in cart s \<noteq> [] \<and> sorted_wrt (<) (map sale_id (sales s)) \<and>
       (\<forall>x\<in>set (sales s). sale_id x < idNow (ex_env 2000)) \<and>
       map sale_id (sales (snd (checkout (ex_env 2000) s))) = [1000, 2000])"
  using sale_ids_increasing
    [of "run [AddToCart 1, Checkout (ex_env 1000), AddToCart 2] ex_init" "ex_env 2000"]
  by (simp add: Let_def run_def addToCart_def checkout_def updateStock_def ex_defs)

text \<open>
  Claim C6 as stated fails: two checkouts at the same clock reading give two sales one
  id, and a clock that was set back gives the later sale the smaller id.
\<close>

theorem sale_ids_counterexample:
  "map sale_id (sales (run [AddToCart 1, Checkout (ex_env 1000),
                            AddToCart 2, Checkout (ex_env 1000)] ex_init)) = [1000, 1000] \<and>
   map sale_id (sales (run [AddToCart 1, Checkout (ex_env 1000),
                            AddToCart 2, Checkout (ex_env 400)] ex_init)) = [1000, 400]"
  by (simp add: run_def addToCart_def checkout_def updateStock_def ex_defs)

subsection \<open>Reports\<close>

text \<open>
  Claim C7. On an empty ledger the filter returns the empty list whatever the search
  text and the date range are, and on every ledger and filter its result is in
  descending order of the sale date. The function is total: no input makes it fail.
\<close>

theorem filtered_sales_empty_sorted:
  "(sales s = [] \<longrightarrow> getFilteredSales cal now s = []) \<and>
   sorted_wrt (\<lambda>a b. sale_date a \<ge> sale_date b) (getFilteredSales cal now s)"
proof
  show "sales s = [] \<longrightarrow> getFilteredSales cal now s = []"
    by (simp add: getFilteredSales_def Let_def split: option.splits)
next
  have "sorted (map (\<lambda>sale'. - sale_date sale') (sort_key (\<lambda>sale'. - sale_date sale') xs))" for xs
    by (rule sorted_sort_key)
  then have key: "sorted_wrt (\<lambda>a b. sale_date a \<ge> sale_date b) (sort_key (\<lambda>sale'. - sale_date sale') xs)" for xs
    by (simp add: sorted_map)
  show "sorted_wrt (\<lambda>a b. sale_date a \<ge> sale_date b) (getFilteredSales cal now s)"
    unfolding getFilteredSales_def Let_def by (rule key)
qed

theorem filtered_sales_empty_sorted_witness:
  "sales (ex_init\<lparr>currentFilter := \<lparr>search = ''asha'', dateRange = ''week'',
                                      startDate = None, endDate = None\<rparr>\<rparr>) = [] \<and>
   getFilteredSales ex_cal 5000
     (ex_init\<lparr>currentFilter := \<lparr>search = ''asha'', dateRange = ''week'',
                                 startDate = None, endDate = None\<rparr>\<rparr>) = []"
  using filtered_sales_empty_sorted
    [of "ex_init\<lparr>currentFilter := \<lparr>search = ''asha'', dateRange = ''week'',
                                      startDate = None, endDate = None\<rparr>\<rparr>" ex_cal 5000]
  by (simp add: ex_init_def)

subsection \<open>Permissions\<close>

text \<open>
  Claim C8. With a user logged in: an admin is granted the three known permissions; a
  manager is granted manager and cashier and denied admin; a cashier is granted cashier
  and nothing else; a permission that is none of the three is denied whatever the role;
  and \<^verbatim>\<open>addUser\<close> called by a cashier returns false and the state it was given.
\<close>

theorem permission_hierarchy:
  assumes "currentUser s = Some u"
  shows "(role u = ''admin'' \<longrightarrow>
            hasPermission ''admin'' s \<and> hasPermission ''manager'' s \<and> hasPermission ''cashier'' s) \<and>
         (role u = ''manager'' \<longrightarrow>
            \<not> hasPermission ''admin'' s \<and> hasPermission ''manager'' s \<and> hasPermission ''cashier'' s) \<and>
         (role u = ''cashier'' \<longrightarrow> (\<forall>p. hasPermission p s \<longleftrightarrow> p = ''cashier'')) \<and>
         (\<forall>p. p \<notin> {''admin'', ''manager'', ''cashier''} \<longrightarrow> \<not> hasPermission p s) \<and>
         (role u = ''cashier'' \<longrightarrow>
            addUser userData idClock dateClock s
              = (False, Toast (Text ''Insufficient permissions'') ''error'', s))"
  using assms by (simp add: hasPermission_def addUser_def)

theorem permission_hierarchy_witness:
  "(let s = ex_init\<lparr>currentUser := Some (ex_admin\<lparr>role := ''cashier''\<rparr>)\<rparr>;
        ud = \<lparr>ud_name = ''Eve'', ud_username = ''eve'', ud_password = ''pw'',
              ud_role = ''admin'', ud_email = None\<rparr>
    in currentUser s = Some (ex_admin\<lparr>role := ''cashier''\<rparr>) \<and>
       \<not> hasPermission ''admin'' s \<and> \<not> hasPermission ''manager'' s \<and> hasPermission ''cashier'' s \<and>
       \<not> hasPermission ''owner'' s \<and>
       fst (addUser ud 7 7 s) = False \<and> users (snd (snd (addUser ud 7 7 s))) = users s)"
  using permission_hierarchy
    [of "ex_init\<lparr>currentUser := Some (ex_admin\<lparr>role := ''cashier''\<rparr>)\<rparr>"
        "ex_admin\<lparr>role := ''cashier''\<rparr>"
        "\<lparr>ud_name = ''Eve'', ud_username = ''eve'', ud_password = ''pw'',
              ud_role = ''admin'', ud_email = None\<rparr>" 7 7]
  by (simp add: Let_def ex_init_def ex_admin_def)

subsection \<open>Forecast\<close>

lemma soldIn_zero:
  "\<forall>item\<in>set (items sale'). item_id item = pid \<longrightarrow> quantity item = 0 \<Longrightarrow>
   soldIn pid a sale' = a"
  by (auto simp: soldIn_def find_Some_iff split: option.splits)

lemma foldl_soldIn_zero:
  "\<forall>sale'\<in>set xs. \<forall>item\<in>set (items sale'). item_id item = pid \<longrightarrow> quantity item = 0 \<Longrightarrow>
   foldl (soldIn pid) a xs = a"
  by (induction xs arbitrary: a) (simp_all add: soldIn_zero)

lemma velocity_zero:
  assumes "noUnitsSold cal now pid s"
  shows "getProductSalesVelocity cal now pid s = 0"
proof -
  have "foldl (soldIn pid) 0
          (filter (\<lambda>sale'. sale_date sale' \<ge> minusDays cal now 30 \<and>
                     list_ex (\<lambda>item. item_id item = pid) (items sale')) (sales s)) = 0"
    using assms by (intro foldl_soldIn_zero) (auto simp: noUnitsSold_def list_all_iff)
  then show ?thesis by (simp add: getProductSalesVelocity_def Let_def)
qed

lemma trend_zero:
  assumes "noUnitsSold cal now pid s"
  shows "calculateProductTrend now pid s = 0"
proof -
  have recent: "foldl (soldIn pid) 0
          (filter (\<lambda>sale'. sale_date sale' \<ge> now - 60 * 24 * 60 * 60 * 1000 \<and>
                     list_ex (\<lambda>item. item_id item = pid) (items sale')) (sales s)) = 0"
    using assms by (intro foldl_soldIn_zero) (auto simp: noUnitsSold_def list_all_iff)
  have old: "foldl (soldIn pid) 0
          (filter (\<lambda>sale'. sale_date sale' \<ge> now - 60 * 24 * 60 * 60 * 1000 - 60 * 24 * 60 * 60 * 1000 \<and>
                     sale_date sale' < now - 60 * 24 * 60 * 60 * 1000 \<and>
                     list_ex (\<lambda>item. item_id item = pid) (items sale')) (sales s)) = 0"
    using assms by (intro foldl_soldIn_zero) (auto simp: noUnitsSold_def list_all_iff)
  show ?thesis
    unfolding calculateProductTrend_def Let_def recent old by simp
qed

text \<open>
  A table built by storing one entry for each element of a list under its key holds,
  under a key of the list, the entry of an element with that key.
\<close>

lemma foldl_map_upd:
  assumes "F = (\<lambda>m p. m(key p \<mapsto> g p))"
  shows "\<exists>p\<in>set ps. key p = k \<Longrightarrow> \<exists>p\<in>set ps. key p = k \<and> foldl F init ps k = Some (g p)"
proof (induction ps rule: rev_induct)
  case Nil
  then show ?case by simp
next
  case (snoc x xs)
  have last: "foldl F init (xs @ [x]) = (foldl F init xs)(key x \<mapsto> g x)"
    by (simp add: assms)
  show ?case
  proof (cases "key x = k")
    case True
    then show ?thesis unfolding last by auto
  next
    case False
    with snoc.prems have "\<exists>p\<in>set xs. key p = k" by auto
    then obtain p where "p \<in> set xs" "key p = k" "foldl F init xs k = Some (g p)"
      using snoc.IH by blast
    with False show ?thesis unfolding last by auto
  qed
qed

text \<open>
  Claim C9. For a product with no units sold in any window of the ledger, the velocity
  is 0 and the trend is 0; if the product is in the catalog, its demand prediction
  recommends a stock of 0; and no reorder suggestion is for it.
\<close>

theorem forecast_no_sales:
  assumes "noUnitsSold cal now pid s"
  shows "getProductSalesVelocity cal now pid s = 0 \<and>
         calculateProductTrend now pid s = 0 \<and>
         (\<forall>p\<in>set (products s). prod_id p = pid \<longrightarrow>
            (\<exists>pr. demandPredictions (calculateInventoryForecast cal now s) pid = Some pr \<and>
                  recommendedStock pr = 0)) \<and>
         (\<forall>r\<in>set (reorderSuggestions (calculateInventoryForecast cal now s)). ro_id r \<noteq> pid)"
proof -
  note v = velocity_zero [OF assms] and t = trend_zero [OF assms]
  define g where "g = (\<lambda>product::product. \<lparr>pred_name = prod_name product,
               currentVelocity = getProductSalesVelocity cal now (prod_id product) s,
               predictedVelocity = getProductSalesVelocity cal now (prod_id product) s
                  * (1 + calculateProductTrend now (prod_id product) s),
               confidence = min (\<bar>calculateProductTrend now (prod_id product) s\<bar> * 100) 90,
               recommendedStock = \<lceil>(getProductSalesVelocity cal now (prod_id product) s
                  * (1 + calculateProductTrend now (prod_id product) s)) * 45\<rceil>\<rparr>)"
  have dp: "demandPredictions (calculateInventoryForecast cal now s)
            = foldl (\<lambda>m p. m(prod_id p \<mapsto> g p)) Map.empty (products s)"
    by (simp add: calculateInventoryForecast_def calculateDemandPredictions_def Let_def g_def)
  have g0: "recommendedStock (g q) = 0" if "prod_id q = pid" for q
    by (simp add: g_def that v t)
  have pred: "\<exists>pr. demandPredictions (calculateInventoryForecast cal now s) pid = Some pr \<and>
                recommendedStock pr = 0"
    if "p \<in> set (products s)" "prod_id p = pid" for p
  proof -
    from that have "\<exists>p\<in>set (products s). prod_id p = pid" by auto
    from foldl_map_upd [OF refl this, where g = g and init = Map.empty]
    obtain q where "prod_id q = pid"
      "foldl (\<lambda>m p. m(prod_id p \<mapsto> g p)) Map.empty (products s) pid = Some (g q)"
      by blast
    with g0 show ?thesis unfolding dp by blast
  qed
  have sugg: "\<forall>r\<in>set (reorderSuggestions (calculateInventoryForecast cal now s)). ro_id r \<noteq> pid"
  proof
    fix r
    assume "r \<in> set (reorderSuggestions (calculateInventoryForecast cal now s))"
    then have "\<exists>q::product. getProductSalesVelocity cal now (prod_id q) s > 0 \<and> ro_id r = prod_id q"
      by (auto simp: calculateInventoryForecast_def Let_def)
    with v show "ro_id r \<noteq> pid" by auto
  qed
  from v t pred sugg show ?thesis by blast
qed

text \<open>The state after the session that sold two laptops, evaluated.\<close>

lemma ex_sold_eq:
  "ex_sold = ex_init\<lparr>products := [ex_laptop\<lparr>stock := 8\<rparr>, ex_mouse],
       sales := [\<lparr>sale_id = 1000, sale_date = 1000,
                  customer = \<lparr>cust_name = ''Asha'', cust_phone = ''555''\<rparr>,
                  items = [\<lparr>item_id = 1, item_name = ''Laptop'', item_price = 74999, quantity = 2\<rparr>],
                  sale_subtotal = 149998, sale_discount = 0, sale_discountType = ''percentage'',
                  sale_discountValue = 0, sale_tax = 149998 / 10, sale_total = 1649978 / 10\<rparr>]\<rparr>"
  by (simp add: ex_sold_def run_def addToCart_def checkout_def updateStock_def ex_defs)

theorem forecast_no_sales_witness:
  "noUnitsSold ex_cal 5000 2 ex_sold \<and> prod_id ex_mouse = 2 \<and> ex_mouse \<in> set (products ex_sold) \<and>
   getProductSalesVelocity ex_cal 5000 2 ex_sold = 0 \<and>
   getProductSalesVelocity ex_cal 5000 1 ex_sold = 1 / 15 \<and>
   calculateProductTrend 5000 2 ex_sold = 0 \<and>
   calculateProductTrend 5000 1 ex_sold = 1 / 2 \<and>
   map_option recommendedStock
     (demandPredictions (calculateInventoryForecast ex_cal 5000 ex_sold) 2) = Some 0"
proof -
  have h: "noUnitsSold ex_cal 5000 2 ex_sold"
    by (simp add: ex_sold_eq noUnitsSold_def ex_cal_def ex_defs)
  have m: "ex_mouse \<in> set (products ex_sold)" "prod_id ex_mouse = 2"
    by (simp_all add: ex_sold_eq ex_defs)
  note inst = forecast_no_sales [OF h]
  from inst m
  have r: "map_option recommendedStock
          (demandPredictions (calculateInventoryForecast ex_cal 5000 ex_sold) 2) = Some 0"
    by force
  have l: "getProductSalesVelocity ex_cal 5000 1 ex_sold = 1 / 15"
    "calculateProductTrend 5000 1 ex_sold = 1 / 2"
    by (simp_all add: ex_sold_eq getProductSalesVelocity_def calculateProductTrend_def
        soldIn_def ex_cal_def ex_defs)
  from h m inst r l show ?thesis by blast
qed

end
